theory Spec2Isabelle
  imports Complex_Main
begin

section \<open>JavaScript values\<close>

text \<open>
  The price widget of \<^verbatim>\<open>src/js/main.js\<close> stores whatever a source's parse function
  returns, so the model keeps JavaScript's dynamic values. A number is a finite value,
  written as the real it denotes (the sign of zero is left out), or one of the three
  special values. An object lists its own properties, each key once.
\<close>

datatype jsnum = Fin real | NaN | PosInf | NegInf

datatype jsval =
    JUndefined
  | JNull
  | JBool bool
  | JNum jsnum
  | JStr string
  | JArr "jsval list"
  | JObj "(string \<times> jsval) list"

datatype js_error = TypeError | SyntaxError

text \<open>\<^verbatim>\<open><=\<close> on numbers, and \<^verbatim>\<open>Math.round\<close>, whose result is exact: the nearest whole number, a tie going up.\<close>

fun js_le :: "jsnum \<Rightarrow> jsnum \<Rightarrow> bool" where
  "js_le NaN y = False"
| "js_le x NaN = False"
| "js_le (Fin a) (Fin b) = (a \<le> b)"
| "js_le NegInf y = True"
| "js_le x PosInf = True"
| "js_le x y = False"

fun Math_round :: "jsnum \<Rightarrow> jsnum" where
  "Math_round (Fin r) = Fin (of_int \<lfloor>r + 1 / 2\<rfloor>)"
| "Math_round x = x"

text \<open>
  What the engine supplies and the repository does not define is a parameter: the parsing
  and printing of numbers, the rounding of an arithmetic result to binary64, and the
  conversions of an array or object, which call methods of the value and so may throw.
  The cases of primitive values are written out.
\<close>

record builtins =
  parseFloatString :: "string \<Rightarrow> jsnum"
  stringToNumber :: "string \<Rightarrow> jsnum"
  numberToLocaleString :: "jsnum \<Rightarrow> string"
  binary64 :: "real \<Rightarrow> real option"
  objectParseFloat :: "jsval \<Rightarrow> js_error + jsnum"
  objectToNumber :: "jsval \<Rightarrow> js_error + jsnum"
  objectToLocaleString :: "jsval \<Rightarrow> js_error + string"

text \<open>
  The binary64 value of an exact result \<open>r\<close>. IEEE 754 keeps the sign and rounds the
  magnitude: \<open>binary64 B\<close> gives the rounded magnitude, or \<open>None\<close> when it overflows to
  infinity. Zero is exact and no rounding gives \<^verbatim>\<open>NaN\<close>.
\<close>

definition fl :: "builtins \<Rightarrow> real \<Rightarrow> jsnum" where
  "fl B r =
     (if r = 0 then Fin 0
      else case binary64 B \<bar>r\<bar> of
             None \<Rightarrow> (if 0 < r then PosInf else NegInf)
           | Some m \<Rightarrow> Fin (if 0 < r then \<bar>m\<bar> else - \<bar>m\<bar>))"

text \<open>The operators \<^verbatim>\<open>/\<close> and \<^verbatim>\<open>*\<close> on numbers.\<close>

fun js_div :: "builtins \<Rightarrow> jsnum \<Rightarrow> jsnum \<Rightarrow> jsnum" where
  "js_div B NaN y = NaN"
| "js_div B x NaN = NaN"
| "js_div B (Fin a) (Fin b) =
     (if b \<noteq> 0 then fl B (a / b)
      else if a = 0 then NaN
      else if 0 < a then PosInf else NegInf)"
| "js_div B (Fin a) y = Fin 0"
| "js_div B PosInf (Fin b) = (if 0 \<le> b then PosInf else NegInf)"
| "js_div B NegInf (Fin b) = (if 0 \<le> b then NegInf else PosInf)"
| "js_div B x y = NaN"

fun js_mul :: "builtins \<Rightarrow> jsnum \<Rightarrow> jsnum \<Rightarrow> jsnum" where
  "js_mul B NaN y = NaN"
| "js_mul B x NaN = NaN"
| "js_mul B (Fin a) (Fin b) = fl B (a * b)"
| "js_mul B (Fin a) PosInf = (if a = 0 then NaN else if 0 < a then PosInf else NegInf)"
| "js_mul B (Fin a) NegInf = (if a = 0 then NaN else if 0 < a then NegInf else PosInf)"
| "js_mul B PosInf (Fin b) = (if b = 0 then NaN else if 0 < b then PosInf else NegInf)"
| "js_mul B NegInf (Fin b) = (if b = 0 then NaN else if 0 < b then NegInf else PosInf)"
| "js_mul B PosInf PosInf = PosInf"
| "js_mul B NegInf NegInf = PosInf"
| "js_mul B x y = NegInf"

text \<open>The coercion of the right operand of \<^verbatim>\<open>/\<close> and \<^verbatim>\<open>*\<close>.\<close>

definition ToNumber :: "builtins \<Rightarrow> jsval \<Rightarrow> js_error + jsnum" where
  "ToNumber B v =
     (case v of
        JUndefined \<Rightarrow> Inr NaN
      | JNull \<Rightarrow> Inr (Fin 0)
      | JBool b \<Rightarrow> Inr (Fin (if b then 1 else 0))
      | JNum n \<Rightarrow> Inr n
      | JStr s \<Rightarrow> Inr (stringToNumber B s)
      | _ \<Rightarrow> objectToNumber B v)"

text \<open>\<^verbatim>\<open>parseFloat(v)\<close>: the argument is turned into a string and its numeric prefix is read.\<close>

definition parseFloat :: "builtins \<Rightarrow> jsval \<Rightarrow> js_error + jsnum" where
  "parseFloat B v =
     (case v of
        JUndefined \<Rightarrow> Inr NaN
      | JNull \<Rightarrow> Inr NaN
      | JBool b \<Rightarrow> Inr NaN
      | JNum n \<Rightarrow> Inr n
      | JStr s \<Rightarrow> Inr (parseFloatString B s)
      | _ \<Rightarrow> objectParseFloat B v)"

text \<open>\<^verbatim>\<open>!v\<close> is true exactly when \<open>v\<close> is not truthy.\<close>

definition truthy :: "jsval \<Rightarrow> bool" where
  "truthy v =
     (case v of
        JUndefined \<Rightarrow> False
      | JNull \<Rightarrow> False
      | JBool b \<Rightarrow> b
      | JNum n \<Rightarrow> n \<noteq> Fin 0 \<and> n \<noteq> NaN
      | JStr s \<Rightarrow> s \<noteq> []
      | _ \<Rightarrow> True)"

section \<open>Conversions\<close>

text \<open>
  The four conversion functions read the global \<^verbatim>\<open>btcPrice\<close>; here it is the argument
  \<open>price\<close>. The amount is a number. A conversion throws only where the coercion of a
  price that is an array or an object does.
\<close>

definition eurToBtc :: "builtins \<Rightarrow> jsval \<Rightarrow> jsnum \<Rightarrow> js_error + jsnum" where
  "eurToBtc B price eur =
     (if \<not> truthy price \<or> js_le eur (Fin 0) then Inr (Fin 0)
      else case ToNumber B price of Inl e \<Rightarrow> Inl e | Inr P \<Rightarrow> Inr (js_div B eur P))"

definition eurToSats :: "builtins \<Rightarrow> jsval \<Rightarrow> jsnum \<Rightarrow> js_error + jsnum" where
  "eurToSats B price eur =
     (case eurToBtc B price eur of
        Inl e \<Rightarrow> Inl e
      | Inr btc \<Rightarrow> Inr (Math_round (js_mul B btc (Fin 100000000))))"

definition btcToEur :: "builtins \<Rightarrow> jsval \<Rightarrow> jsnum \<Rightarrow> js_error + jsnum" where
  "btcToEur B price btc =
     (if \<not> truthy price \<or> js_le btc (Fin 0) then Inr (Fin 0)
      else case ToNumber B price of Inl e \<Rightarrow> Inl e | Inr P \<Rightarrow> Inr (js_mul B btc P))"

definition satsToEur :: "builtins \<Rightarrow> jsval \<Rightarrow> jsnum \<Rightarrow> js_error + jsnum" where
  "satsToEur B price sats = btcToEur B price (js_div B sats (Fin 100000000))"

section \<open>Price sources\<close>

text \<open>
  \<^verbatim>\<open>v.k\<close> for the property names the parse functions read (\<^verbatim>\<open>bitcoin\<close>, \<^verbatim>\<open>eur\<close>, \<^verbatim>\<open>EUR\<close>,
  \<^verbatim>\<open>last\<close>, \<^verbatim>\<open>data\<close>, \<^verbatim>\<open>priceUsd\<close>): reading a property of \<^verbatim>\<open>undefined\<close> or \<^verbatim>\<open>null\<close> throws,
  an object gives the value under the key or \<^verbatim>\<open>undefined\<close>, and a boolean, number, string or
  array has none of these names.
\<close>

fun get_prop :: "jsval \<Rightarrow> string \<Rightarrow> js_error + jsval" where
  "get_prop JUndefined k = Inl TypeError"
| "get_prop JNull k = Inl TypeError"
| "get_prop (JObj kvs) k = (case map_of kvs k of None \<Rightarrow> Inr JUndefined | Some v \<Rightarrow> Inr v)"
| "get_prop v k = Inr JUndefined"

record api =
  name :: string
  url :: string
  parsePrice :: "jsval \<Rightarrow> js_error + jsval"

definition parseCoinGecko :: "jsval \<Rightarrow> js_error + jsval" where
  "parseCoinGecko data =
     (case get_prop data ''bitcoin'' of Inl e \<Rightarrow> Inl e | Inr b \<Rightarrow> get_prop b ''eur'')"

definition parseBlockchainInfo :: "jsval \<Rightarrow> js_error + jsval" where
  "parseBlockchainInfo data =
     (case get_prop data ''EUR'' of Inl e \<Rightarrow> Inl e | Inr b \<Rightarrow> get_prop b ''last'')"

definition parseCoinCap :: "builtins \<Rightarrow> jsval \<Rightarrow> js_error + jsval" where
  "parseCoinCap B data =
     (case get_prop data ''data'' of
        Inl e \<Rightarrow> Inl e
      | Inr d \<Rightarrow>
          (case get_prop d ''priceUsd'' of
             Inl e \<Rightarrow> Inl e
           | Inr usd \<Rightarrow>
               (case parseFloat B usd of
                  Inl e \<Rightarrow> Inl e
                | Inr n \<Rightarrow> Inr (JNum (js_mul B n (Fin (92 / 100)))))))"

definition API_SOURCES :: "builtins \<Rightarrow> api list" where
  "API_SOURCES B =
     [\<lparr>name = ''CoinGecko'',
       url = ''https://api.coingecko.com/api/v3/simple/price?ids=bitcoin&vs_currencies=eur'',
       parsePrice = parseCoinGecko\<rparr>,
      \<lparr>name = ''Blockchain.info'',
       url = ''https://blockchain.info/ticker'',
       parsePrice = parseBlockchainInfo\<rparr>,
      \<lparr>name = ''CoinCap'',
       url = ''https://api.coincap.io/v2/assets/bitcoin'',
       parsePrice = parseCoinCap B\<rparr>]"

section \<open>The page and the network\<close>

text \<open>
  What a call of \<^verbatim>\<open>fetchBtcPrice\<close> reads and writes: the two globals, the three elements it
  looks up (\<open>None\<close> when \<^verbatim>\<open>getElementById\<close> finds none; otherwise the class name or the text
  of the element), and the trace of what it does to the outside: requests, warnings on
  the console and events dispatched on the window.
\<close>

datatype event = Fetch string | Warn string js_error | Dispatch jsval

record page =
  btcPrice :: jsval
  currentApiSource :: "string option"
  priceDot :: "string option"
  priceDisplay :: "string option"
  apiSourceDisplay :: "string option"
  events :: "event list"

text \<open>
  The answer of the network to a request: \<^verbatim>\<open>fetch\<close> rejects, or gives a response with its
  \<^verbatim>\<open>ok\<close> flag and the outcome of \<^verbatim>\<open>response.json()\<close>, which rejects on a body that is not
  JSON. During one call the answer depends on the URL alone.
\<close>

datatype fetch_result = Rejected js_error | Response bool "js_error + jsval"

type_synonym network = "string \<Rightarrow> fetch_result"

text \<open>
  How a statement completes: it ends normally, or leaves by \<^verbatim>\<open>continue\<close>, \<^verbatim>\<open>return\<close> or a
  throw.
\<close>

datatype completion = Normal | Continue | Return jsval | Throw js_error

text \<open>
  \<^verbatim>\<open>num.toLocaleString('es-ES', {maximumFractionDigits: 0}) + ' \<euro>'\<close>, the suffix in UTF-8.
  The method call throws on \<^verbatim>\<open>undefined\<close> and \<^verbatim>\<open>null\<close>.
\<close>

definition formatEur :: "builtins \<Rightarrow> jsval \<Rightarrow> js_error + string" where
  "formatEur B num =
     (case
        (case num of
           JUndefined \<Rightarrow> Inl TypeError
         | JNull \<Rightarrow> Inl TypeError
         | JBool b \<Rightarrow> Inr (if b then ''true'' else ''false'')
         | JNum n \<Rightarrow> Inr (numberToLocaleString B n)
         | JStr s \<Rightarrow> Inr s
         | _ \<Rightarrow> objectToLocaleString B num)
      of Inl e \<Rightarrow> Inl e
       | Inr s \<Rightarrow> Inr (s @ [CHR '' '', CHR 0xE2, CHR 0x82, CHR 0xAC]))"

section \<open>fetchBtcPrice\<close>

text \<open>
  The body of the \<^verbatim>\<open>try\<close> block for one source, statement by statement. A throw keeps the
  assignments made before it.
\<close>

definition tryBody :: "builtins \<Rightarrow> network \<Rightarrow> api \<Rightarrow> page \<Rightarrow> completion \<times> page" where
  "tryBody B net a p =
     (let p1 = p\<lparr>events := events p @ [Fetch (url a)]\<rparr> in
      case net (url a) of
        Rejected e \<Rightarrow> (Throw e, p1)
      | Response ok body \<Rightarrow>
          if \<not> ok then (Continue, p1)
          else
            (case body of
               Inl e \<Rightarrow> (Throw e, p1)
             | Inr data \<Rightarrow>
                 (case parsePrice a data of
                    Inl e \<Rightarrow> (Throw e, p1)
                  | Inr v \<Rightarrow>
                      (let p2 = p1\<lparr>btcPrice := v, currentApiSource := Some (name a)\<rparr> in
                       case (if priceDisplay p2 \<noteq> None then formatEur B v else Inr []) of
                         Inl e \<Rightarrow> (Throw e, p2)
                       | Inr s \<Rightarrow>
                           (let p3 = (if priceDisplay p2 \<noteq> None
                                      then p2\<lparr>priceDisplay := Some s\<rparr> else p2);
                                p4 = (if apiSourceDisplay p3 \<noteq> None
                                      then p3\<lparr>apiSourceDisplay :=
                                             Some ([CHR ''v'', CHR 0xC3, CHR 0xAD, CHR ''a'', CHR '' ''] @ name a)\<rparr>
                                      else p3);
                                p5 = (if priceDot p4 \<noteq> None
                                      then p4\<lparr>priceDot := Some ''price-dot''\<rparr> else p4);
                                p6 = p5\<lparr>events := events p5 @ [Dispatch v]\<rparr>
                            in (Return v, p6))))))"

text \<open>
  \<^verbatim>\<open>try { body } catch (error) { handler }\<close>: the handler runs on the state the body has
  left when it threw; any other completion of the body is that of the statement.
\<close>

definition tryCatch ::
  "(page \<Rightarrow> completion \<times> page) \<Rightarrow> (js_error \<Rightarrow> page \<Rightarrow> completion \<times> page) \<Rightarrow>
     page \<Rightarrow> completion \<times> page" where
  "tryCatch body handler p =
     (case body p of
        (Throw e, p') \<Rightarrow> handler e p'
      | (c, p') \<Rightarrow> (c, p'))"

text \<open>The \<^verbatim>\<open>catch\<close> block: \<^verbatim>\<open>console.warn\<close>, then \<^verbatim>\<open>continue\<close>.\<close>

definition catchBody :: "api \<Rightarrow> js_error \<Rightarrow> page \<Rightarrow> completion \<times> page" where
  "catchBody a error p = (Continue, p\<lparr>events := events p @ [Warn (name a) error]\<rparr>)"

text \<open>
  The \<^verbatim>\<open>for\<close> loop over the sources: a \<^verbatim>\<open>return\<close> or a throw of an iteration leaves the
  loop, anything else goes on with the next source.
\<close>

fun forLoop :: "builtins \<Rightarrow> network \<Rightarrow> api list \<Rightarrow> page \<Rightarrow> completion \<times> page" where
  "forLoop B net [] p = (Normal, p)"
| "forLoop B net (a # as) p =
     (case tryCatch (tryBody B net a) (catchBody a) p of
        (Return v, p') \<Rightarrow> (Return v, p')
      | (Throw e, p') \<Rightarrow> (Throw e, p')
      | (c, p') \<Rightarrow> forLoop B net as p')"

text \<open>
  The whole function over a list of sources (the source calls it on \<^verbatim>\<open>API_SOURCES\<close>). A
  \<^verbatim>\<open>return\<close> or a throw inside the loop is the completion of the call; the completion is
  \<open>Throw\<close> where the promise it returns would reject.
\<close>

definition fetchBtcPrice :: "builtins \<Rightarrow> network \<Rightarrow> api list \<Rightarrow> page \<Rightarrow> completion \<times> page" where
  "fetchBtcPrice B net srcs p =
     (let p0 = (if priceDot p \<noteq> None then p\<lparr>priceDot := Some ''price-dot loading''\<rparr> else p) in
      case forLoop B net srcs p0 of
        (Return v, p') \<Rightarrow> (Return v, p')
      | (Throw e, p') \<Rightarrow> (Throw e, p')
      | (c, p') \<Rightarrow>
          (let p1 = (if priceDisplay p' \<noteq> None
                     then p'\<lparr>priceDisplay :=
                            Some (''sin conexi'' @ [CHR 0xC3, CHR 0xB3, CHR ''n''])\<rparr>
                     else p');
               p2 = (if priceDot p1 \<noteq> None then p1\<lparr>priceDot := Some ''price-dot error''\<rparr> else p1)
           in (Return JNull, p2)))"

definition getBtcPrice :: "page \<Rightarrow> jsval" where
  "getBtcPrice p = btcPrice p"

section \<open>Results of the conversions and a concrete engine\<close>



text \<open>
  Engines for the concrete runs: one whose arithmetic is exact, and one that is exact
  below \<open>2^1024\<close>, where binary64 overflows.
\<close>

definition stub_builtins :: builtins where
  "stub_builtins =
     \<lparr>parseFloatString = (\<lambda>s. NaN), stringToNumber = (\<lambda>s. NaN),
      numberToLocaleString = (\<lambda>n. []), binary64 = Some,
      objectParseFloat = (\<lambda>v. Inr NaN),
      objectToNumber = (\<lambda>v. Inr NaN), objectToLocaleString = (\<lambda>v. Inr [])\<rparr>"


section \<open>Notions of the properties\<close>

text \<open>
  The value a source yields: its request is answered, the response is \<^verbatim>\<open>ok\<close>, its body is
  JSON and the parse function returns (any value). \<open>None\<close> otherwise.
\<close>

definition parsed :: "network \<Rightarrow> api \<Rightarrow> jsval option" where
  "parsed net a =
     (case net (url a) of
        Rejected e \<Rightarrow> None
      | Response ok body \<Rightarrow>
          if \<not> ok then None
          else (case body of
                  Inl e \<Rightarrow> None
                | Inr data \<Rightarrow> (case parsePrice a data of Inl e \<Rightarrow> None | Inr v \<Rightarrow> Some v)))"

text \<open>
  A source fails: it is unreachable, its response is not \<^verbatim>\<open>ok\<close>, or parsing fails (the body
  is not JSON, or the parse function throws).
\<close>

definition source_fails :: "network \<Rightarrow> api \<Rightarrow> bool" where
  "source_fails net a =
     (case net (url a) of
        Rejected e \<Rightarrow> True
      | Response ok body \<Rightarrow>
          \<not> ok \<or> (case body of
                    Inl e \<Rightarrow> True
                  | Inr data \<Rightarrow> (case parsePrice a data of Inl e \<Rightarrow> True | Inr v \<Rightarrow> False)))"

text \<open>
  A price as the specification's data model has it: a non-negative number.
\<close>

definition valid_price :: "jsval \<Rightarrow> bool" where
  "valid_price v = (case v of JNum (Fin r) \<Rightarrow> 0 \<le> r | _ \<Rightarrow> False)"

text \<open>
  The URLs requested and the prices dispatched, in order, in a trace.
\<close>

fun requests :: "event list \<Rightarrow> string list" where
  "requests [] = []"
| "requests (Fetch u # es) = u # requests es"
| "requests (e # es) = requests es"

fun dispatched :: "event list \<Rightarrow> jsval list" where
  "dispatched [] = []"
| "dispatched (Dispatch v # es) = v # dispatched es"
| "dispatched (e # es) = dispatched es"

text \<open>
  The hypothesis of the first-success property in the specification's words: source \<open>i\<close> is
  the first whose request succeeds and whose parse returns a valid price.
\<close>

definition yields_valid :: "network \<Rightarrow> api \<Rightarrow> bool" where
  "yields_valid net a = (case parsed net a of None \<Rightarrow> False | Some v \<Rightarrow> valid_price v)"

definition first_valid :: "network \<Rightarrow> api list \<Rightarrow> nat \<Rightarrow> bool" where
  "first_valid net srcs i =
     (i < length srcs \<and> yields_valid net (srcs ! i) \<and>
      list_all (\<lambda>a. \<not> yields_valid net a) (take i srcs))"

text \<open>
  Every source fails, in the specification's words: none of them yields a valid price.
\<close>

definition all_fail :: "network \<Rightarrow> api list \<Rightarrow> bool" where
  "all_fail net srcs = list_all (\<lambda>a. \<not> yields_valid net a) srcs"

text \<open>
  The USD price of a CoinCap response as the source reads it:
  \<^verbatim>\<open>parseFloat(data.data.priceUsd)\<close>.
\<close>

definition usd_price :: "builtins \<Rightarrow> jsval \<Rightarrow> js_error + jsnum" where
  "usd_price B response =
     (case get_prop response ''data'' of
        Inl e \<Rightarrow> Inl e
      | Inr d \<Rightarrow> (case get_prop d ''priceUsd'' of Inl e \<Rightarrow> Inl e | Inr usd \<Rightarrow> parseFloat B usd))"

text \<open>
  Inputs of the concrete runs. A network where CoinGecko answers with the given JSON,
  Blockchain.info quotes 50000 and CoinCap is unreachable; one where CoinGecko answers and
  the others are unreachable; a network that is down; a page without the three elements
  and a page with them, both before any price is known, and the same two pages with an
  earlier price of 40000.
\<close>

definition answers :: "jsval \<Rightarrow> network" where
  "answers body u =
     (if u = ''https://api.coingecko.com/api/v3/simple/price?ids=bitcoin&vs_currencies=eur''
        then Response True (Inr body)
      else if u = ''https://blockchain.info/ticker''
        then Response True (Inr (JObj [(''EUR'', JObj [(''last'', JNum (Fin 50000))])]))
      else Rejected TypeError)"

definition answers_alone :: "jsval \<Rightarrow> network" where
  "answers_alone body u =
     (if u = ''https://api.coingecko.com/api/v3/simple/price?ids=bitcoin&vs_currencies=eur''
        then Response True (Inr body)
      else Rejected TypeError)"

definition offline :: network where
  "offline u = Rejected TypeError"

definition bare_page :: page where
  "bare_page = \<lparr>btcPrice = JNull, currentApiSource = None, priceDot = None,
                 priceDisplay = None, apiSourceDisplay = None, events = []\<rparr>"

definition widget_page :: page where
  "widget_page = \<lparr>btcPrice = JNull, currentApiSource = None, priceDot = Some ''price-dot'',
                   priceDisplay = Some ''--'', apiSourceDisplay = Some [], events = []\<rparr>"

definition stale_page :: page where
  "stale_page = \<lparr>btcPrice = JNum (Fin 40000), currentApiSource = Some ''CoinCap'',
                  priceDot = Some ''price-dot'', priceDisplay = Some ''40.000'',
                  apiSourceDisplay = Some [], events = []\<rparr>"

definition stale_bare_page :: page where
  "stale_bare_page = \<lparr>btcPrice = JNum (Fin 40000), currentApiSource = Some ''CoinCap'',
                       priceDot = None, priceDisplay = None, apiSourceDisplay = None, events = []\<rparr>"

section \<open>The conversions\<close>

lemma fl_exact: "binary64 B = Some \<Longrightarrow> fl B r = Fin r"
  by (simp add: fl_def)

lemma fl_nonpos: "r \<le> 0 \<Longrightarrow> js_le (fl B r) (Fin 0)"
  by (simp add: fl_def split: option.splits)


lemma js_le_div_sats: "js_le x (Fin 0) \<Longrightarrow> js_le (js_div B x (Fin 100000000)) (Fin 0)"
  by (cases x) (simp_all add: fl_nonpos divide_le_0_iff)

text \<open>
  C5: every conversion returns 0 when the current price is unset or the amount is not
  positive; \<^verbatim>\<open>eurToSats(0)\<close> and \<^verbatim>\<open>eurToSats(-5)\<close> are 0 for every current price. The
  conversions are functions of the price and the amount alone: they return a number and
  touch no state.
\<close>

theorem conversions_zero:
  "(price = JNull \<or> js_le x (Fin 0) \<longrightarrow>
      eurToBtc B price x = Inr (Fin 0) \<and> eurToSats B price x = Inr (Fin 0) \<and>
      btcToEur B price x = Inr (Fin 0) \<and> satsToEur B price x = Inr (Fin 0)) \<and>
   eurToSats B p (Fin 0) = Inr (Fin 0) \<and> eurToSats B p (Fin (- 5)) = Inr (Fin 0)"
  using js_le_div_sats [of x B]
  by (auto simp: eurToBtc_def eurToSats_def btcToEur_def satsToEur_def truthy_def fl_def)

theorem conversions_zero_witness:
  "eurToBtc stub_builtins JNull (Fin 10) = Inr (Fin 0) \<and>
   satsToEur stub_builtins (JNum (Fin 50000)) (Fin (- 3)) = Inr (Fin 0) \<and>
   eurToSats stub_builtins (JArr []) (Fin (- 5)) = Inr (Fin 0)"
  using conversions_zero [of JNull "Fin 10" stub_builtins "JArr []"]
        conversions_zero [of "JNum (Fin 50000)" "Fin (- 3)" stub_builtins "JArr []"]
  by simp













section \<open>The third source\<close>

text \<open>
  C6: the third source is CoinCap, and for every response its parse function is the USD
  price times the constant 0.92: it throws where reading the USD price throws, and
  otherwise returns the product, whatever the response. For a finite USD price \<open>r\<close> that
  is the binary64 value of \<open>r * 0.92\<close>, and \<open>r * 0.92\<close> itself in exact arithmetic.
\<close>

theorem coincap_fixed_rate:
  "name (API_SOURCES B ! 2) = ''CoinCap'' \<and>
   parsePrice (API_SOURCES B ! 2) response =
     (case usd_price B response of
        Inl e \<Rightarrow> Inl e
      | Inr usd \<Rightarrow> Inr (JNum (js_mul B usd (Fin (92 / 100))))) \<and>
   (\<forall>r. usd_price B response = Inr (Fin r) \<longrightarrow>
        parsePrice (API_SOURCES B ! 2) response = Inr (JNum (fl B (r * (92 / 100)))) \<and>
        (binary64 B = Some \<longrightarrow>
           parsePrice (API_SOURCES B ! 2) response = Inr (JNum (Fin (r * 92 / 100)))))"
  by (simp add: API_SOURCES_def parseCoinCap_def usd_price_def fl_exact split: sum.splits)

theorem coincap_fixed_rate_witness:
  "usd_price (stub_builtins\<lparr>parseFloatString := (\<lambda>s. Fin 60000)\<rparr>)
      (JObj [(''data'', JObj [(''priceUsd'', JStr ''60000.00'')])]) = Inr (Fin 60000) \<and>
   parsePrice (API_SOURCES (stub_builtins\<lparr>parseFloatString := (\<lambda>s. Fin 60000)\<rparr>) ! 2)
      (JObj [(''data'', JObj [(''priceUsd'', JStr ''60000.00'')])]) = Inr (JNum (Fin 55200))"
proof -
  have h: "usd_price (stub_builtins\<lparr>parseFloatString := (\<lambda>s. Fin 60000)\<rparr>)
      (JObj [(''data'', JObj [(''priceUsd'', JStr ''60000.00'')])]) = Inr (Fin 60000)"
    by (simp add: usd_price_def parseFloat_def stub_builtins_def)
  have ex: "binary64 (stub_builtins\<lparr>parseFloatString := (\<lambda>s. Fin 60000)\<rparr>) = Some"
    by (simp add: stub_builtins_def)
  from coincap_fixed_rate [of "stub_builtins\<lparr>parseFloatString := (\<lambda>s. Fin 60000)\<rparr>"
      "JObj [(''data'', JObj [(''priceUsd'', JStr ''60000.00'')])]"] h ex
  show ?thesis by (simp add: fl_exact [OF ex])
qed

section \<open>One source, then the loop\<close>

lemma requests_append: "requests (xs @ ys) = requests xs @ requests ys"
  by (induction xs rule: requests.induct) simp_all

lemma dispatched_append: "dispatched (xs @ ys) = dispatched xs @ dispatched ys"
  by (induction xs rule: dispatched.induct) simp_all

lemma source_fails_parsed: "source_fails net a \<longleftrightarrow> parsed net a = None"
  by (simp add: source_fails_def parsed_def split: fetch_result.splits sum.splits)

lemma tryBody_fails:
  assumes "parsed net a = None"
  shows "\<exists>c. tryBody B net a p = (c, p\<lparr>events := events p @ [Fetch (url a)]\<rparr>) \<and>
             (c = Continue \<or> (\<exists>e. c = Throw e))"
  using assms
  by (auto simp: parsed_def tryBody_def Let_def split: fetch_result.splits sum.splits if_splits)

lemma tryBody_parsed:
  assumes "parsed net a = Some v"
  shows "\<exists>c p'. tryBody B net a p = (c, p') \<and> btcPrice p' = v \<and> currentApiSource p' = Some (name a) \<and>
           ((c = Return v \<and> events p' = events p @ [Fetch (url a), Dispatch v]) \<or>
            ((\<exists>e. c = Throw e) \<and> events p' = events p @ [Fetch (url a)] \<and>
               priceDisplay p \<noteq> None \<and> (\<exists>e. formatEur B v = Inl e)))"
  using assms
  by (auto simp: parsed_def tryBody_def Let_def split: fetch_result.splits sum.splits if_splits)

lemma formatEur_valid: "valid_price v \<Longrightarrow> \<exists>s. formatEur B v = Inr s"
  by (auto simp: valid_price_def formatEur_def split: jsval.splits jsnum.splits)

lemma iteration_fails:
  assumes "parsed net a = None"
  shows "\<exists>w. tryCatch (tryBody B net a) (catchBody a) p =
               (Continue, p\<lparr>events := events p @ Fetch (url a) # w\<rparr>) \<and>
             requests w = [] \<and> dispatched w = []"
proof -
  from tryBody_fails [OF assms, of B p] obtain c where
    c: "tryBody B net a p = (c, p\<lparr>events := events p @ [Fetch (url a)]\<rparr>)"
       "c = Continue \<or> (\<exists>e. c = Throw e)" by blast
  from c(2) show ?thesis
  proof
    assume "c = Continue"
    with c(1) have "tryCatch (tryBody B net a) (catchBody a) p =
        (Continue, p\<lparr>events := events p @ Fetch (url a) # []\<rparr>)"
      by (simp add: tryCatch_def)
    then show ?thesis by fastforce
  next
    assume "\<exists>e. c = Throw e"
    then obtain e where "c = Throw e" ..
    with c(1) have "tryCatch (tryBody B net a) (catchBody a) p =
        (Continue, p\<lparr>events := events p @ Fetch (url a) # [Warn (name a) e]\<rparr>)"
      by (simp add: tryCatch_def catchBody_def)
    moreover have "requests [Warn (name a) e] = []" "dispatched [Warn (name a) e] = []" by simp_all
    ultimately show ?thesis by blast
  qed
qed

lemma iteration_parsed:
  assumes "parsed net a = Some v"
  shows "\<exists>c p'. tryCatch (tryBody B net a) (catchBody a) p = (c, p') \<and>
           btcPrice p' = v \<and> currentApiSource p' = Some (name a) \<and>
           requests (events p') = requests (events p) @ [url a] \<and>
           ((c = Return v \<and> dispatched (events p') = dispatched (events p) @ [v]) \<or>
            (c = Continue \<and> dispatched (events p') = dispatched (events p) \<and>
               priceDisplay p \<noteq> None \<and> (\<exists>e. formatEur B v = Inl e)))"
proof -
  from tryBody_parsed [OF assms, of B p] obtain c q where
    q: "tryBody B net a p = (c, q)" "btcPrice q = v" "currentApiSource q = Some (name a)"
       "(c = Return v \<and> events q = events p @ [Fetch (url a), Dispatch v]) \<or>
        ((\<exists>e. c = Throw e) \<and> events q = events p @ [Fetch (url a)] \<and>
           priceDisplay p \<noteq> None \<and> (\<exists>e. formatEur B v = Inl e))"
    by blast
  from q(4) show ?thesis
  proof
    assume r: "c = Return v \<and> events q = events p @ [Fetch (url a), Dispatch v]"
    with q(1) have "tryCatch (tryBody B net a) (catchBody a) p = (Return v, q)"
      by (simp add: tryCatch_def)
    with q(2,3) r show ?thesis by (simp add: requests_append dispatched_append)
  next
    assume t: "(\<exists>e. c = Throw e) \<and> events q = events p @ [Fetch (url a)] \<and>
           priceDisplay p \<noteq> None \<and> (\<exists>e. formatEur B v = Inl e)"
    then obtain e where "c = Throw e" by blast
    with q(1) have "tryCatch (tryBody B net a) (catchBody a) p =
        (Continue, q\<lparr>events := events q @ [Warn (name a) e]\<rparr>)"
      by (simp add: tryCatch_def catchBody_def)
    with q(2,3) t show ?thesis by (simp add: requests_append dispatched_append)
  qed
qed

lemma iteration_returns:
  assumes "parsed net a = Some v" "priceDisplay p = None \<or> (\<exists>s. formatEur B v = Inr s)"
  shows "\<exists>p'. tryCatch (tryBody B net a) (catchBody a) p = (Return v, p') \<and> btcPrice p' = v \<and>
           currentApiSource p' = Some (name a) \<and>
           requests (events p') = requests (events p) @ [url a] \<and>
           dispatched (events p') = dispatched (events p) @ [v]"
  using iteration_parsed [OF assms(1), of B p] assms(2) by auto

lemma forLoop_fails:
  assumes "\<forall>a\<in>set pre. parsed net a = None"
  shows "\<exists>es. forLoop B net (pre @ rest) p = forLoop B net rest (p\<lparr>events := events p @ es\<rparr>) \<and>
              requests es = map url pre \<and> dispatched es = []"
  using assms
proof (induction pre arbitrary: p)
  case Nil
  have "forLoop B net ([] @ rest) p = forLoop B net rest (p\<lparr>events := events p @ []\<rparr>)" by simp
  then show ?case by fastforce
next
  case (Cons a pre)
  from Cons.prems have fa: "parsed net a = None" and fp: "\<forall>a\<in>set pre. parsed net a = None" by simp_all
  from iteration_fails [OF fa, of B p] obtain w where
    w: "tryCatch (tryBody B net a) (catchBody a) p = (Continue, p\<lparr>events := events p @ Fetch (url a) # w\<rparr>)"
       "requests w = []" "dispatched w = []" by blast
  from w(1) have step: "forLoop B net ((a # pre) @ rest) p =
      forLoop B net (pre @ rest) (p\<lparr>events := events p @ Fetch (url a) # w\<rparr>)" by simp
  from Cons.IH [OF fp, of "p\<lparr>events := events p @ Fetch (url a) # w\<rparr>"] obtain es where
    es: "forLoop B net (pre @ rest) (p\<lparr>events := events p @ Fetch (url a) # w\<rparr>) =
           forLoop B net rest (p\<lparr>events := events p @ (Fetch (url a) # w) @ es\<rparr>)"
        "requests es = map url pre" "dispatched es = []"
    by auto
  have "requests ((Fetch (url a) # w) @ es) = map url (a # pre)"
    using w es(2) by (simp add: requests_append)
  moreover have "dispatched ((Fetch (url a) # w) @ es) = []"
    using w es(3) by (simp add: dispatched_append)
  ultimately show ?case using step es(1) by metis
qed

lemma forLoop_invariant:
  "forLoop B net srcs p = (c, p') \<Longrightarrow>
     (c = Normal \<or> (\<exists>v. c = Return v)) \<and>
     (btcPrice p' = btcPrice p \<and> currentApiSource p' = currentApiSource p \<or>
        (\<exists>a\<in>set srcs. parsed net a = Some (btcPrice p') \<and> currentApiSource p' = Some (name a))) \<and>
     (\<forall>v. c = Return v \<longrightarrow>
        btcPrice p' = v \<and> (\<exists>a\<in>set srcs. parsed net a = Some v \<and> currentApiSource p' = Some (name a)))"
proof (induction srcs arbitrary: p)
  case Nil
  then show ?case by auto
next
  case (Cons a srcs)
  show ?case
  proof (cases "parsed net a")
    case None
    from iteration_fails [OF None, of B p] obtain w where
      w: "tryCatch (tryBody B net a) (catchBody a) p = (Continue, p\<lparr>events := events p @ Fetch (url a) # w\<rparr>)"
      by blast
    with Cons.prems have "forLoop B net srcs (p\<lparr>events := events p @ Fetch (url a) # w\<rparr>) = (c, p')"
      by simp
    from Cons.IH [OF this] show ?thesis by auto
  next
    case (Some v)
    from iteration_parsed [OF Some, of B p] obtain d q where
      q: "tryCatch (tryBody B net a) (catchBody a) p = (d, q)" "btcPrice q = v"
         "currentApiSource q = Some (name a)" "d = Return v \<or> d = Continue"
      by blast
    from q(4) show ?thesis
    proof
      assume "d = Return v"
      with q(1) Cons.prems have "c = Return v" "p' = q" by simp_all
      with q(2,3) Some show ?thesis by simp
    next
      assume "d = Continue"
      with q(1) Cons.prems have "forLoop B net srcs q = (c, p')" by simp
      from Cons.IH [OF this] q(2,3) Some show ?thesis by auto
    qed
  qed
qed

lemma forLoop_trace:
  "forLoop B net srcs p = (c, p') \<Longrightarrow>
     \<exists>n\<le>length srcs.
       requests (events p') = requests (events p) @ map url (take n srcs) \<and>
       btcPrice p' = last (btcPrice p # List.map_filter (parsed net) (take n srcs)) \<and>
       ((c = Normal \<and> n = length srcs \<and> dispatched (events p') = dispatched (events p)) \<or>
        (0 < n \<and> parsed net (srcs ! (n - 1)) = Some (btcPrice p') \<and> c = Return (btcPrice p') \<and>
           dispatched (events p') = dispatched (events p) @ [btcPrice p']))"
proof (induction srcs arbitrary: p)
  case Nil
  then show ?case by (simp add: List.map_filter_simps)
next
  case (Cons a srcs)
  show ?case
  proof (cases "parsed net a")
    case None
    from iteration_fails [OF None, of B p] obtain w where
      w: "tryCatch (tryBody B net a) (catchBody a) p = (Continue, p\<lparr>events := events p @ Fetch (url a) # w\<rparr>)"
         "requests w = []" "dispatched w = []"
      by blast
    let ?q = "p\<lparr>events := events p @ Fetch (url a) # w\<rparr>"
    from w(1) Cons.prems have "forLoop B net srcs ?q = (c, p')" by simp
    from Cons.IH [OF this] obtain n where
      n: "n \<le> length srcs"
         "requests (events p') = requests (events ?q) @ map url (take n srcs)"
         "btcPrice p' = last (btcPrice ?q # List.map_filter (parsed net) (take n srcs))"
         "(c = Normal \<and> n = length srcs \<and> dispatched (events p') = dispatched (events ?q)) \<or>
          (0 < n \<and> parsed net (srcs ! (n - 1)) = Some (btcPrice p') \<and> c = Return (btcPrice p') \<and>
             dispatched (events p') = dispatched (events ?q) @ [btcPrice p'])"
      by blast
    have rq: "requests (events ?q) = requests (events p) @ [url a]"
      using w(2) by (simp add: requests_append)
    have dq: "dispatched (events ?q) = dispatched (events p)"
      using w(3) by (simp add: dispatched_append)
    have 1: "Suc n \<le> length (a # srcs)" using n(1) by simp
    have 2: "requests (events p') = requests (events p) @ map url (take (Suc n) (a # srcs))"
      using n(2) rq by simp
    have 3: "btcPrice p' = last (btcPrice p # List.map_filter (parsed net) (take (Suc n) (a # srcs)))"
      using n(3) None by (simp add: List.map_filter_simps)
    have 4: "(c = Normal \<and> Suc n = length (a # srcs) \<and> dispatched (events p') = dispatched (events p)) \<or>
          (0 < Suc n \<and> parsed net ((a # srcs) ! (Suc n - 1)) = Some (btcPrice p') \<and> c = Return (btcPrice p') \<and>
             dispatched (events p') = dispatched (events p) @ [btcPrice p'])"
      using n(4) dq by (cases n) auto
    from 1 2 3 4 show ?thesis by blast
  next
    case (Some v)
    from iteration_parsed [OF Some, of B p] obtain d q where
      q: "tryCatch (tryBody B net a) (catchBody a) p = (d, q)" "btcPrice q = v"
         "requests (events q) = requests (events p) @ [url a]"
         "(d = Return v \<and> dispatched (events q) = dispatched (events p) @ [v]) \<or>
          (d = Continue \<and> dispatched (events q) = dispatched (events p))"
      by blast
    from q(4) show ?thesis
    proof
      assume r: "d = Return v \<and> dispatched (events q) = dispatched (events p) @ [v]"
      with q(1) Cons.prems have cp: "c = Return v" "p' = q" by simp_all
      have 1: "Suc 0 \<le> length (a # srcs)" by simp
      have 2: "requests (events p') = requests (events p) @ map url (take (Suc 0) (a # srcs))"
        using cp q(3) by simp
      have 3: "btcPrice p' = last (btcPrice p # List.map_filter (parsed net) (take (Suc 0) (a # srcs)))"
        using cp q(2) Some by (simp add: List.map_filter_simps)
      have 4: "0 < Suc 0 \<and> parsed net ((a # srcs) ! (Suc 0 - 1)) = Some (btcPrice p') \<and>
            c = Return (btcPrice p') \<and> dispatched (events p') = dispatched (events p) @ [btcPrice p']"
        using cp q(2) r Some by simp
      from 1 2 3 4 show ?thesis by blast
    next
      assume t: "d = Continue \<and> dispatched (events q) = dispatched (events p)"
      with q(1) Cons.prems have "forLoop B net srcs q = (c, p')" by simp
      from Cons.IH [OF this] obtain n where
        n: "n \<le> length srcs"
           "requests (events p') = requests (events q) @ map url (take n srcs)"
           "btcPrice p' = last (btcPrice q # List.map_filter (parsed net) (take n srcs))"
           "(c = Normal \<and> n = length srcs \<and> dispatched (events p') = dispatched (events q)) \<or>
            (0 < n \<and> parsed net (srcs ! (n - 1)) = Some (btcPrice p') \<and> c = Return (btcPrice p') \<and>
               dispatched (events p') = dispatched (events q) @ [btcPrice p'])"
        by blast
      have 1: "Suc n \<le> length (a # srcs)" using n(1) by simp
      have 2: "requests (events p') = requests (events p) @ map url (take (Suc n) (a # srcs))"
        using n(2) q(3) by simp
      have 3: "btcPrice p' = last (btcPrice p # List.map_filter (parsed net) (take (Suc n) (a # srcs)))"
        using n(3) q(2) Some by (simp add: List.map_filter_simps)
      have 4: "(c = Normal \<and> Suc n = length (a # srcs) \<and> dispatched (events p') = dispatched (events p)) \<or>
            (0 < Suc n \<and> parsed net ((a # srcs) ! (Suc n - 1)) = Some (btcPrice p') \<and> c = Return (btcPrice p') \<and>
               dispatched (events p') = dispatched (events p) @ [btcPrice p'])"
        using n(4) t by (cases n) auto
      from 1 2 3 4 show ?thesis by blast
    qed
  qed
qed

lemma fetch_unfold:
  assumes "forLoop B net srcs (if priceDot p \<noteq> None then p\<lparr>priceDot := Some ''price-dot loading''\<rparr> else p) = (c, q)"
    and "c = Normal \<or> (\<exists>v. c = Return v)"
  shows "\<exists>p'. fetchBtcPrice B net srcs p = (case c of Return v \<Rightarrow> Return v | _ \<Rightarrow> Return JNull, p') \<and>
        btcPrice p' = btcPrice q \<and> currentApiSource p' = currentApiSource q \<and> events p' = events q \<and>
        (c = Normal \<longrightarrow> priceDot p' = (if priceDot q = None then None else Some ''price-dot error''))"
  using assms by (auto simp: fetchBtcPrice_def Let_def)

lemma first_parsed_returns:
  assumes "i < length srcs" "\<forall>j<i. source_fails net (srcs ! j)"
    and "parsed net (srcs ! i) = Some v" "priceDisplay p = None \<or> (\<exists>s. formatEur B v = Inr s)"
  shows "\<exists>p'. fetchBtcPrice B net srcs p = (Return v, p') \<and> btcPrice p' = v \<and>
           currentApiSource p' = Some (name (srcs ! i)) \<and>
           requests (events p') = requests (events p) @ map url (take (Suc i) srcs) \<and>
           dispatched (events p') = dispatched (events p) @ [v]"
proof -
  let ?p0 = "if priceDot p \<noteq> None then p\<lparr>priceDot := Some ''price-dot loading''\<rparr> else p"
  have split: "srcs = take i srcs @ srcs ! i # drop (Suc i) srcs"
    using assms(1) by (simp add: id_take_nth_drop)
  have "\<forall>a\<in>set (take i srcs). parsed net a = None"
  proof
    fix a assume "a \<in> set (take i srcs)"
    then obtain j where "j < i" "a = srcs ! j"
      using assms(1) by (auto simp: in_set_conv_nth)
    with assms(2) show "parsed net a = None" by (simp add: source_fails_parsed)
  qed
  from forLoop_fails [OF this, of B "srcs ! i # drop (Suc i) srcs" ?p0] split obtain es where
    es: "forLoop B net srcs ?p0 = forLoop B net (srcs ! i # drop (Suc i) srcs) (?p0\<lparr>events := events ?p0 @ es\<rparr>)"
        "requests es = map url (take i srcs)" "dispatched es = []"
    by metis
  let ?q = "?p0\<lparr>events := events ?p0 @ es\<rparr>"
  from assms(4) have "priceDisplay ?q = None \<or> (\<exists>s. formatEur B v = Inr s)" by auto
  from iteration_returns [OF assms(3) this] obtain q' where
    q': "tryCatch (tryBody B net (srcs ! i)) (catchBody (srcs ! i)) ?q = (Return v, q')" "btcPrice q' = v"
        "currentApiSource q' = Some (name (srcs ! i))"
        "requests (events q') = requests (events ?q) @ [url (srcs ! i)]"
        "dispatched (events q') = dispatched (events ?q) @ [v]"
    by blast
  have loop: "forLoop B net srcs ?p0 = (Return v, q')" using es(1) q'(1) by simp
  from fetch_unfold [OF loop] obtain p' where
    p': "fetchBtcPrice B net srcs p = (Return v, p')" "btcPrice p' = btcPrice q'"
        "currentApiSource p' = currentApiSource q'" "events p' = events q'"
    by auto
  have "requests (events p') = requests (events p) @ map url (take i srcs) @ [url (srcs ! i)]"
    using p'(4) q'(4) es(2) by (simp add: requests_append)
  also have "map url (take i srcs) @ [url (srcs ! i)] = map url (take (Suc i) srcs)"
    using assms(1) by (simp add: take_Suc_conv_app_nth)
  finally have rq: "requests (events p') = requests (events p) @ map url (take (Suc i) srcs)" .
  have "dispatched (events p') = dispatched (events p) @ [v]"
    using p'(4) q'(5) es(3) by (simp add: dispatched_append)
  with rq p' q' show ?thesis by auto
qed

section \<open>Concrete runs\<close>

lemmas run_defs = fetchBtcPrice_def tryCatch_def catchBody_def tryBody_def API_SOURCES_def
  answers_def answers_alone_def offline_def parseCoinGecko_def parseBlockchainInfo_def
  parseCoinCap_def formatEur_def stub_builtins_def bare_page_def widget_page_def
  stale_bare_page_def Let_def getBtcPrice_def

lemma run_empty_bare:
  "fetchBtcPrice stub_builtins (answers (JObj [(''bitcoin'', JObj [])])) (API_SOURCES stub_builtins) bare_page =
     (Return JUndefined,
      \<lparr>btcPrice = JUndefined, currentApiSource = Some ''CoinGecko'', priceDot = None,
       priceDisplay = None, apiSourceDisplay = None,
       events = [Fetch ''https://api.coingecko.com/api/v3/simple/price?ids=bitcoin&vs_currencies=eur'',
                 Dispatch JUndefined]\<rparr>)"
  by (simp add: run_defs)

lemma run_empty_widget:
  "fetchBtcPrice stub_builtins (answers (JObj [(''bitcoin'', JObj [])])) (API_SOURCES stub_builtins) widget_page =
     (Return (JNum (Fin 50000)),
      \<lparr>btcPrice = JNum (Fin 50000), currentApiSource = Some ''Blockchain.info'',
       priceDot = Some ''price-dot'',
       priceDisplay = Some [CHR '' '', CHR 0xE2, CHR 0x82, CHR 0xAC],
       apiSourceDisplay = Some ([CHR ''v'', CHR 0xC3, CHR 0xAD, CHR ''a'', CHR '' ''] @ ''Blockchain.info''),
       events = [Fetch ''https://api.coingecko.com/api/v3/simple/price?ids=bitcoin&vs_currencies=eur'',
                 Warn ''CoinGecko'' TypeError,
                 Fetch ''https://blockchain.info/ticker'',
                 Dispatch (JNum (Fin 50000))]\<rparr>)"
  by (simp add: run_defs)

lemma run_null_widget:
  "fetchBtcPrice stub_builtins (answers (JObj [(''bitcoin'', JObj [(''eur'', JNull)])])) (API_SOURCES stub_builtins) widget_page =
     (Return (JNum (Fin 50000)),
      \<lparr>btcPrice = JNum (Fin 50000), currentApiSource = Some ''Blockchain.info'',
       priceDot = Some ''price-dot'',
       priceDisplay = Some [CHR '' '', CHR 0xE2, CHR 0x82, CHR 0xAC],
       apiSourceDisplay = Some ([CHR ''v'', CHR 0xC3, CHR 0xAD, CHR ''a'', CHR '' ''] @ ''Blockchain.info''),
       events = [Fetch ''https://api.coingecko.com/api/v3/simple/price?ids=bitcoin&vs_currencies=eur'',
                 Warn ''CoinGecko'' TypeError,
                 Fetch ''https://blockchain.info/ticker'',
                 Dispatch (JNum (Fin 50000))]\<rparr>)"
  by (simp add: run_defs)

section \<open>What a call records\<close>

text \<open>
  C1, as the code has it: when every source before \<open>i\<close> fails and source \<open>i\<close> yields a
  valid price, the call returns that price, records it and the name of source \<open>i\<close>, and
  has requested exactly the sources up to \<open>i\<close>, each once and in order.
\<close>

theorem first_success_recorded:
  assumes "i < length srcs" "\<forall>j<i. source_fails net (srcs ! j)"
    and "parsed net (srcs ! i) = Some v" "valid_price v"
  shows "\<exists>p'. fetchBtcPrice B net srcs p = (Return v, p') \<and> getBtcPrice p' = v \<and>
           currentApiSource p' = Some (name (srcs ! i)) \<and>
           requests (events p') = requests (events p) @ map url (take (Suc i) srcs)"
proof -
  from formatEur_valid [OF assms(4)] have "priceDisplay p = None \<or> (\<exists>s. formatEur B v = Inr s)" by blast
  from first_parsed_returns [OF assms(1,2,3) this] show ?thesis
    by (auto simp: getBtcPrice_def)
qed

theorem first_success_recorded_witness:
  "source_fails (answers JNull) (API_SOURCES stub_builtins ! 0) \<and>
   parsed (answers JNull) (API_SOURCES stub_builtins ! 1) = Some (JNum (Fin 50000)) \<and>
   valid_price (JNum (Fin 50000)) \<and>
   (\<exists>p'. fetchBtcPrice stub_builtins (answers JNull) (API_SOURCES stub_builtins) widget_page
            = (Return (JNum (Fin 50000)), p') \<and>
         getBtcPrice p' = JNum (Fin 50000) \<and> currentApiSource p' = Some ''Blockchain.info'' \<and>
         requests (events p') =
           [''https://api.coingecko.com/api/v3/simple/price?ids=bitcoin&vs_currencies=eur'',
            ''https://blockchain.info/ticker''])"
proof -
  have f0: "source_fails (answers JNull) (API_SOURCES stub_builtins ! 0)"
    by (simp add: API_SOURCES_def source_fails_def answers_def parseCoinGecko_def)
  have len: "1 < length (API_SOURCES stub_builtins)" by (simp add: API_SOURCES_def)
  have before: "\<forall>j<1. source_fails (answers JNull) (API_SOURCES stub_builtins ! j)"
    using f0 by simp
  have at: "parsed (answers JNull) (API_SOURCES stub_builtins ! 1) = Some (JNum (Fin 50000))"
    by (simp add: API_SOURCES_def parsed_def answers_def parseBlockchainInfo_def)
  have ok: "valid_price (JNum (Fin 50000))" by (simp add: valid_price_def)
  from first_success_recorded [OF len before at ok, of stub_builtins widget_page] f0 at ok
  show ?thesis by (simp add: API_SOURCES_def widget_page_def)
qed

text \<open>
  C1 as stated fails when an earlier source yields a value that is no valid price: with
  CoinGecko answering \<^verbatim>\<open>{"bitcoin": {"eur": "n/a"}}\<close>, Blockchain.info is the first source with
  a valid price, but the call records CoinGecko and the text, and never asks
  Blockchain.info.
\<close>

theorem first_valid_not_recorded:
  "first_valid (answers (JObj [(''bitcoin'', JObj [(''eur'', JStr ''n/a'')])])) (API_SOURCES stub_builtins) 1 \<and>
   name (API_SOURCES stub_builtins ! 1) = ''Blockchain.info'' \<and>
   currentApiSource (snd (fetchBtcPrice stub_builtins (answers (JObj [(''bitcoin'', JObj [(''eur'', JStr ''n/a'')])]))
      (API_SOURCES stub_builtins) widget_page)) = Some ''CoinGecko'' \<and>
   getBtcPrice (snd (fetchBtcPrice stub_builtins (answers (JObj [(''bitcoin'', JObj [(''eur'', JStr ''n/a'')])]))
      (API_SOURCES stub_builtins) widget_page)) = JStr ''n/a'' \<and>
   requests (events (snd (fetchBtcPrice stub_builtins (answers (JObj [(''bitcoin'', JObj [(''eur'', JStr ''n/a'')])]))
      (API_SOURCES stub_builtins) widget_page))) =
     [''https://api.coingecko.com/api/v3/simple/price?ids=bitcoin&vs_currencies=eur'']"
  by (simp add: run_defs first_valid_def yields_valid_def parsed_def valid_price_def)

text \<open>
  C2, as the code has it: when every source fails at the request, at the \<^verbatim>\<open>ok\<close> check, at
  the JSON body or by a parse function that throws, the call returns \<^verbatim>\<open>null\<close> and leaves the
  current price (and the current source) as they were; no event is dispatched, and the
  dot, if present, shows the error.
\<close>

theorem all_fail_keeps_price:
  assumes "\<forall>a\<in>set srcs. source_fails net a"
  shows "\<exists>p'. fetchBtcPrice B net srcs p = (Return JNull, p') \<and>
           getBtcPrice p' = getBtcPrice p \<and> currentApiSource p' = currentApiSource p \<and>
           dispatched (events p') = dispatched (events p) \<and>
           priceDot p' = (if priceDot p = None then None else Some ''price-dot error'')"
proof -
  let ?p0 = "if priceDot p \<noteq> None then p\<lparr>priceDot := Some ''price-dot loading''\<rparr> else p"
  from assms have "\<forall>a\<in>set srcs. parsed net a = None" by (simp add: source_fails_parsed)
  from forLoop_fails [OF this, of B "[]" ?p0] obtain es where
    es: "forLoop B net srcs ?p0 = (Normal, ?p0\<lparr>events := events ?p0 @ es\<rparr>)" "dispatched es = []"
    by auto
  from fetch_unfold [OF es(1)] es(2) show ?thesis
    by (auto simp: getBtcPrice_def dispatched_append)
qed

theorem all_fail_keeps_price_witness:
  "list_all (source_fails offline) (API_SOURCES stub_builtins) \<and>
   (\<exists>p'. fetchBtcPrice stub_builtins offline (API_SOURCES stub_builtins) stale_page = (Return JNull, p') \<and>
         getBtcPrice p' = JNum (Fin 40000) \<and> currentApiSource p' = Some ''CoinCap'' \<and>
         dispatched (events p') = [] \<and> priceDot p' = Some ''price-dot error'')"
proof -
  have h: "\<forall>a\<in>set (API_SOURCES stub_builtins). source_fails offline a"
    by (simp add: API_SOURCES_def source_fails_def offline_def)
  from all_fail_keeps_price [OF h, of stub_builtins stale_page] h
  show ?thesis by (simp add: list_all_iff stale_page_def getBtcPrice_def)
qed

text \<open>
  C2 as stated fails when a source answers without a usable price: CoinGecko answers
  \<^verbatim>\<open>{"bitcoin": {"eur": "n/a"}}\<close>, the other two are unreachable, and the page has no price
  element. No source yields a valid price, but the call returns the text and has replaced
  the earlier price of 40000 by it.
\<close>

theorem unusable_answer_recorded:
  "all_fail (answers_alone (JObj [(''bitcoin'', JObj [(''eur'', JStr ''n/a'')])])) (API_SOURCES stub_builtins) \<and>
   getBtcPrice stale_bare_page = JNum (Fin 40000) \<and>
   fst (fetchBtcPrice stub_builtins (answers_alone (JObj [(''bitcoin'', JObj [(''eur'', JStr ''n/a'')])]))
      (API_SOURCES stub_builtins) stale_bare_page) = Return (JStr ''n/a'') \<and>
   getBtcPrice (snd (fetchBtcPrice stub_builtins (answers_alone (JObj [(''bitcoin'', JObj [(''eur'', JStr ''n/a'')])]))
      (API_SOURCES stub_builtins) stale_bare_page)) = JStr ''n/a''"
  by (simp add: run_defs all_fail_def yields_valid_def parsed_def valid_price_def)

text \<open>
  C3, as the code has it. The call records and signals whatever a parse function returns,
  valid or not: when every source before \<open>i\<close> fails and the parse function of source
  \<open>i\<close> returns \<open>v\<close>, and the page has no price element or formatting \<open>v\<close> does not throw,
  the call returns \<open>v\<close>, has recorded it and has dispatched it. And in every call the
  sources are requested in order up to some source \<open>n\<close>; the current price afterwards is
  the value most recently parsed among these, or the price before the call when none of
  them parsed; and either all sources were requested, nothing was dispatched and the call
  returns \<^verbatim>\<open>null\<close>, or the last source requested parsed the current price, which is
  dispatched once and returned.
\<close>

theorem recorded_price_from_parse:
  assumes "fetchBtcPrice B net srcs p = (c, p')"
  shows "(\<forall>i v. i < length srcs \<and> (\<forall>j<i. source_fails net (srcs ! j)) \<and>
              parsed net (srcs ! i) = Some v \<and>
              (priceDisplay p = None \<or> (\<exists>s. formatEur B v = Inr s)) \<longrightarrow>
            c = Return v \<and> getBtcPrice p' = v \<and>
            dispatched (events p') = dispatched (events p) @ [v]) \<and>
         (\<exists>n\<le>length srcs.
            requests (events p') = requests (events p) @ map url (take n srcs) \<and>
            getBtcPrice p' = last (getBtcPrice p # List.map_filter (parsed net) (take n srcs)) \<and>
            ((c = Return JNull \<and> n = length srcs \<and>
                dispatched (events p') = dispatched (events p)) \<or>
             (0 < n \<and> parsed net (srcs ! (n - 1)) = Some (getBtcPrice p') \<and>
                c = Return (getBtcPrice p') \<and>
                dispatched (events p') = dispatched (events p) @ [getBtcPrice p'])))"
proof -
  let ?p0 = "if priceDot p \<noteq> None then p\<lparr>priceDot := Some ''price-dot loading''\<rparr> else p"
  have one: "c = Return v \<and> getBtcPrice p' = v \<and> dispatched (events p') = dispatched (events p) @ [v]"
    if "i < length srcs" "\<forall>j<i. source_fails net (srcs ! j)" "parsed net (srcs ! i) = Some v"
       "priceDisplay p = None \<or> (\<exists>s. formatEur B v = Inr s)" for i v
    using first_parsed_returns [OF that] assms by (auto simp: getBtcPrice_def)
  obtain d q where dq: "forLoop B net srcs ?p0 = (d, q)" by (cases "forLoop B net srcs ?p0")
  from forLoop_invariant [OF dq] have d: "d = Normal \<or> (\<exists>v. d = Return v)" by blast
  from fetch_unfold [OF dq d] assms have
    p': "c = (case d of Return v \<Rightarrow> Return v | _ \<Rightarrow> Return JNull)" "btcPrice p' = btcPrice q"
        "events p' = events q"
    by auto
  from forLoop_trace [OF dq] obtain n where
    n: "n \<le> length srcs"
       "requests (events q) = requests (events ?p0) @ map url (take n srcs)"
       "btcPrice q = last (btcPrice ?p0 # List.map_filter (parsed net) (take n srcs))"
       "(d = Normal \<and> n = length srcs \<and> dispatched (events q) = dispatched (events ?p0)) \<or>
        (0 < n \<and> parsed net (srcs ! (n - 1)) = Some (btcPrice q) \<and> d = Return (btcPrice q) \<and>
           dispatched (events q) = dispatched (events ?p0) @ [btcPrice q])"
    by blast
  have e0: "events ?p0 = events p" by simp
  have 2: "requests (events p') = requests (events p) @ map url (take n srcs)"
    using n(2) p'(3) by simp
  have 3: "getBtcPrice p' = last (getBtcPrice p # List.map_filter (parsed net) (take n srcs))"
    using n(3) p'(2) by (simp add: getBtcPrice_def)
  have 4: "(c = Return JNull \<and> n = length srcs \<and> dispatched (events p') = dispatched (events p)) \<or>
           (0 < n \<and> parsed net (srcs ! (n - 1)) = Some (getBtcPrice p') \<and>
              c = Return (getBtcPrice p') \<and>
              dispatched (events p') = dispatched (events p) @ [getBtcPrice p'])"
    using n(4) p' unfolding e0 by (auto simp: getBtcPrice_def)
  from one n(1) 2 3 4 show ?thesis by blast
qed

theorem recorded_price_from_parse_witness:
  "parsed (answers (JObj [(''bitcoin'', JObj [])])) (API_SOURCES stub_builtins ! 0) = Some JUndefined \<and>
   priceDisplay bare_page = None \<and>
   getBtcPrice (snd (fetchBtcPrice stub_builtins (answers (JObj [(''bitcoin'', JObj [])]))
      (API_SOURCES stub_builtins) bare_page)) = JUndefined \<and>
   dispatched (events (snd (fetchBtcPrice stub_builtins (answers (JObj [(''bitcoin'', JObj [])]))
      (API_SOURCES stub_builtins) bare_page))) = dispatched (events bare_page) @ [JUndefined]"
proof -
  let ?net = "answers (JObj [(''bitcoin'', JObj [])])"
  let ?S = "API_SOURCES stub_builtins"
  let ?r = "fetchBtcPrice stub_builtins ?net ?S bare_page"
  have run: "?r = (fst ?r, snd ?r)" by simp
  have len: "0 < length ?S" by (simp add: API_SOURCES_def)
  have at: "parsed ?net (?S ! 0) = Some JUndefined"
    by (simp add: API_SOURCES_def parsed_def answers_def parseCoinGecko_def)
  have disp: "priceDisplay bare_page = None" by (simp add: bare_page_def)
  note th = recorded_price_from_parse [OF run, THEN conjunct1, rule_format, of 0 JUndefined]
  from len at disp have "fst ?r = Return JUndefined \<and> getBtcPrice (snd ?r) = JUndefined \<and>
      dispatched (events (snd ?r)) = dispatched (events bare_page) @ [JUndefined]"
    by (intro th) simp
  with at disp show ?thesis by simp
qed

text \<open>
  C3 as stated fails: with CoinGecko answering \<^verbatim>\<open>{"bitcoin": {}}\<close> the parse function returns
  \<^verbatim>\<open>undefined\<close>, which is recorded as the current price and dispatched.
\<close>

theorem invalid_price_recorded:
  "getBtcPrice (snd (fetchBtcPrice stub_builtins (answers (JObj [(''bitcoin'', JObj [])])) (API_SOURCES stub_builtins) bare_page))
     = JUndefined \<and>
   dispatched (events (snd (fetchBtcPrice stub_builtins (answers (JObj [(''bitcoin'', JObj [])])) (API_SOURCES stub_builtins) bare_page)))
     = [JUndefined] \<and>
   \<not> valid_price JUndefined \<and> getBtcPrice bare_page = JNull"
  by (simp add: run_defs valid_price_def)

section \<open>Errors stay inside\<close>

text \<open>
  C4: for every engine, network, list of sources and page, the call completes by
  \<^verbatim>\<open>return\<close>, never by a throw: whatever is thrown inside the loop is caught there. The value
  returned is \<^verbatim>\<open>null\<close> or the value that the parse function of a source returned.
\<close>

theorem fetch_never_throws:
  "\<exists>v p'. fetchBtcPrice B net srcs p = (Return v, p') \<and>
          (v = JNull \<or> (\<exists>a\<in>set srcs. parsed net a = Some v))"
proof -
  let ?p0 = "if priceDot p \<noteq> None then p\<lparr>priceDot := Some ''price-dot loading''\<rparr> else p"
  obtain c q where cq: "forLoop B net srcs ?p0 = (c, q)" by (cases "forLoop B net srcs ?p0")
  from forLoop_invariant [OF cq] have
    c: "c = Normal \<or> (\<exists>v. c = Return v)"
    and v: "\<forall>v. c = Return v \<longrightarrow> (\<exists>a\<in>set srcs. parsed net a = Some v)" by blast+
  from fetch_unfold [OF cq c] obtain p' where
    p': "fetchBtcPrice B net srcs p = (case c of Return v \<Rightarrow> Return v | _ \<Rightarrow> Return JNull, p')" by blast
  from c show ?thesis
  proof
    assume "c = Normal"
    with p' show ?thesis by simp
  next
    assume "\<exists>v. c = Return v"
    then obtain w where "c = Return w" ..
    with p' v show ?thesis by simp
  qed
qed

theorem fetch_never_throws_witness:
  "\<exists>v p'. fetchBtcPrice stub_builtins (answers (JObj [(''bitcoin'', JObj [(''eur'', JNull)])]))
      (API_SOURCES stub_builtins) widget_page = (Return v, p') \<and>
     (v = JNull \<or> (\<exists>a\<in>set (API_SOURCES stub_builtins).
         parsed (answers (JObj [(''bitcoin'', JObj [(''eur'', JNull)])])) a = Some v))"
  using fetch_never_throws [of stub_builtins "answers (JObj [(''bitcoin'', JObj [(''eur'', JNull)])])"
      "API_SOURCES stub_builtins" widget_page] .

section \<open>The page elements and the outcome\<close>

text \<open>
  C9 does not hold of the code. CoinGecko answers \<^verbatim>\<open>{"bitcoin": {}}\<close>, so its parse function
  returns \<^verbatim>\<open>undefined\<close>. Without the price element the call returns \<^verbatim>\<open>undefined\<close> with
  CoinGecko as the source; with it, \<^verbatim>\<open>formatEur(undefined)\<close> throws inside the \<^verbatim>\<open>try\<close>, the
  \<^verbatim>\<open>catch\<close> takes it for a failure of the source, and the call goes on to return
  Blockchain.info's 50000.
\<close>

theorem ui_changes_outcome:
  "fst (fetchBtcPrice stub_builtins (answers (JObj [(''bitcoin'', JObj [])])) (API_SOURCES stub_builtins) bare_page)
     = Return JUndefined \<and>
   fst (fetchBtcPrice stub_builtins (answers (JObj [(''bitcoin'', JObj [])])) (API_SOURCES stub_builtins) widget_page)
     = Return (JNum (Fin 50000)) \<and>
   currentApiSource (snd (fetchBtcPrice stub_builtins (answers (JObj [(''bitcoin'', JObj [])])) (API_SOURCES stub_builtins) bare_page))
     = Some ''CoinGecko'' \<and>
   currentApiSource (snd (fetchBtcPrice stub_builtins (answers (JObj [(''bitcoin'', JObj [])])) (API_SOURCES stub_builtins) widget_page))
     = Some ''Blockchain.info''"
  by (simp add: run_empty_bare run_empty_widget)

section \<open>The returned value and the stored state\<close>

text \<open>
  C10, as the code has it: when the call returns a value other than \<^verbatim>\<open>null\<close>, the stored
  price is that value and the stored source is the name of a source that yielded it; when
  every source fails, the call returns \<^verbatim>\<open>null\<close> and the stored price and source are what
  they were before.
\<close>

theorem return_agrees_with_state:
  assumes "fetchBtcPrice B net srcs p = (c, p')"
  shows "(\<forall>v. c = Return v \<and> v \<noteq> JNull \<longrightarrow>
            getBtcPrice p' = v \<and>
            (\<exists>a\<in>set srcs. parsed net a = Some v \<and> currentApiSource p' = Some (name a))) \<and>
         ((\<forall>a\<in>set srcs. source_fails net a) \<longrightarrow>
            c = Return JNull \<and> getBtcPrice p' = getBtcPrice p \<and>
            currentApiSource p' = currentApiSource p)"
proof -
  let ?p0 = "if priceDot p \<noteq> None then p\<lparr>priceDot := Some ''price-dot loading''\<rparr> else p"
  obtain d q where dq: "forLoop B net srcs ?p0 = (d, q)" by (cases "forLoop B net srcs ?p0")
  from forLoop_invariant [OF dq] have d: "d = Normal \<or> (\<exists>v. d = Return v)"
    and dv: "\<forall>v. d = Return v \<longrightarrow>
        btcPrice q = v \<and> (\<exists>a\<in>set srcs. parsed net a = Some v \<and> currentApiSource q = Some (name a))"
    by blast+
  from fetch_unfold [OF dq d] assms have
    p': "c = (case d of Return v \<Rightarrow> Return v | _ \<Rightarrow> Return JNull)" "btcPrice p' = btcPrice q"
        "currentApiSource p' = currentApiSource q"
    by auto
  have one: "\<forall>v. c = Return v \<and> v \<noteq> JNull \<longrightarrow>
            getBtcPrice p' = v \<and>
            (\<exists>a\<in>set srcs. parsed net a = Some v \<and> currentApiSource p' = Some (name a))"
  proof (intro allI impI)
    fix v assume v: "c = Return v \<and> v \<noteq> JNull"
    from d show "getBtcPrice p' = v \<and>
            (\<exists>a\<in>set srcs. parsed net a = Some v \<and> currentApiSource p' = Some (name a))"
    proof
      assume "d = Normal"
      with p'(1) v show ?thesis by simp
    next
      assume "\<exists>w. d = Return w"
      then obtain w where w: "d = Return w" ..
      with p'(1) v have "w = v" by simp
      with w dv have "btcPrice q = v"
        "\<exists>a\<in>set srcs. parsed net a = Some v \<and> currentApiSource q = Some (name a)" by simp_all
      with p'(2,3) show ?thesis by (simp add: getBtcPrice_def)
    qed
  qed
  have two: "c = Return JNull \<and> getBtcPrice p' = getBtcPrice p \<and> currentApiSource p' = currentApiSource p"
    if "\<forall>a\<in>set srcs. source_fails net a"
  proof -
    from that have "\<forall>a\<in>set srcs. parsed net a = None" by (simp add: source_fails_parsed)
    from forLoop_fails [OF this, of B "[]" ?p0] obtain es where
      "forLoop B net srcs ?p0 = (Normal, ?p0\<lparr>events := events ?p0 @ es\<rparr>)" by auto
    with dq have "d = Normal" "q = ?p0\<lparr>events := events ?p0 @ es\<rparr>" by simp_all
    then have "d = Normal" "btcPrice q = btcPrice p" "currentApiSource q = currentApiSource p"
      by simp_all
    with p' show ?thesis by (simp add: getBtcPrice_def)
  qed
  from one two show ?thesis by blast
qed

theorem return_agrees_with_state_witness:
  "(\<exists>a\<in>set (API_SOURCES stub_builtins).
      parsed (answers (JObj [(''bitcoin'', JObj [(''eur'', JNull)])])) a = Some (JNum (Fin 50000)) \<and>
      name a = ''Blockchain.info'') \<and>
   getBtcPrice (snd (fetchBtcPrice stub_builtins (answers (JObj [(''bitcoin'', JObj [(''eur'', JNull)])]))
      (API_SOURCES stub_builtins) widget_page)) = JNum (Fin 50000)"
  using return_agrees_with_state [OF run_null_widget] unfolding run_null_widget
  by (auto simp: getBtcPrice_def)

text \<open>
  C10 as stated fails when a parse function returns \<^verbatim>\<open>null\<close>: with CoinGecko answering
  \<^verbatim>\<open>{"bitcoin": {"eur": null}}\<close> and no price element, the call returns \<^verbatim>\<open>null\<close> and the
  stored source has changed to CoinGecko.
\<close>

theorem null_return_changes_source:
  "fst (fetchBtcPrice stub_builtins (answers (JObj [(''bitcoin'', JObj [(''eur'', JNull)])])) (API_SOURCES stub_builtins) bare_page)
     = Return JNull \<and>
   currentApiSource (snd (fetchBtcPrice stub_builtins (answers (JObj [(''bitcoin'', JObj [(''eur'', JNull)])])) (API_SOURCES stub_builtins) bare_page))
     = Some ''CoinGecko'' \<and>
   currentApiSource bare_page = None"
  by (simp add: run_defs)

end
